theory Spec2Isabelle
  imports Main "HOL-Library.Sublist"
begin

section \<open>Strings, errors and lints\<close>

text \<open>
  A Go string is modelled by the list of its runes: one \<^typ>\<open>char\<close> stands for one rune,
  so \<open>length\<close> is the length of \<open>[]rune(str)\<close>. The line feed is the rune 10.
\<close>

definition newline :: char where
  "newline = CHR 0x0A"

text \<open>
  Modelled from the spec: \<open>parser.Error\<close> is declared in package \<open>parser\<close>. It carries
  the offset into the original source where parsing failed, and a message (what its
  method \<open>Error()\<close> returns).
\<close>

record parser_Error =
  Input :: nat
  Message :: string

text \<open>
  The Go interface \<open>error\<close>, as far as the code looks at it: the type assertion
  \<open>err.(*parser.Error)\<close> succeeds on \<open>ParserError\<close>; every other error is known by
  its message only.
\<close>

datatype error = ParserError parser_Error | OtherError string

fun Error :: "error \<Rightarrow> string" where
  "Error (ParserError mErr) = Message mErr"
| "Error (OtherError msg) = msg"

text \<open>
  A value of type \<open>interface{}\<close>: the type assertion \<open>v.(string)\<close> succeeds exactly on
  \<open>GoString\<close>; \<open>GoOther\<close> holds a value of any other dynamic type.
\<close>

datatype 'a go_interface = GoString string | GoOther 'a

text \<open>
  Modelled from the spec: the type \<open>Lint\<close> and \<open>NewLintError\<close> are declared elsewhere in
  package \<open>docs\<close>. A lint is the triple (line, column, message); \<open>NewLintError\<close> takes
  the line and the message, and leaves the column at Go's zero value.
\<close>

record Lint =
  Line :: int
  Column :: int
  What :: string

definition NewLintError :: "int \<Rightarrow> string \<Rightarrow> Lint" where
  "NewLintError line msg = \<lparr>Line = line, Column = 0, What = msg\<rparr>"

text \<open>
  Modelled from the spec: \<open>parser.LineAndColOf\<close> is declared in package \<open>parser\<close>.
  It returns the one-based line and column of an offset, counted by scanning the
  source for the newlines that precede the offset; an offset past the end of the input
  stops the scan at the end. \<open>scan src n line col\<close> walks over at most \<open>n\<close> runes of
  \<open>src\<close>, starting at position \<open>(line, col)\<close>.
\<close>

fun scan :: "string \<Rightarrow> nat \<Rightarrow> int \<Rightarrow> int \<Rightarrow> int \<times> int" where
  "scan [] n line col = (line, col)"
| "scan (c # cs) 0 line col = (line, col)"
| "scan (c # cs) (Suc n) line col =
     (if c = newline then scan cs n (line + 1) 1 else scan cs n line (col + 1))"

definition LineAndColOf :: "string \<Rightarrow> nat \<Rightarrow> int \<times> int" where
  "LineAndColOf source offset = scan source offset 1 1"

text \<open>
  \<open>LintBloblangMapping\<close> and \<open>LintBloblangField\<close>. The compilers \<open>bloblang.NewMapping\<close>
  and \<open>bloblang.NewField\<close> live in package \<open>bloblang\<close>; they are parameters here, and
  return either an error or the compiled artefact.
\<close>

definition LintBloblangMapping ::
  "(string \<Rightarrow> string \<Rightarrow> error + 'm) \<Rightarrow> 'a go_interface \<Rightarrow> Lint list" where
  "LintBloblangMapping NewMapping v =
     (case v of
        GoOther _ \<Rightarrow> []
      | GoString str \<Rightarrow>
          (case NewMapping [] str of
             Inr _ \<Rightarrow> []
           | Inl err \<Rightarrow>
               (case err of
                  ParserError mErr \<Rightarrow>
                    (let (line, col) = LineAndColOf str (Input mErr);
                         lint = NewLintError line (Error (ParserError mErr))
                     in [lint\<lparr>Column := col\<rparr>])
                | _ \<Rightarrow> [NewLintError 0 (Error err)])))"

definition LintBloblangField ::
  "(string \<Rightarrow> error + 'f) \<Rightarrow> 'a go_interface \<Rightarrow> Lint list" where
  "LintBloblangField NewField v =
     (case v of
        GoOther _ \<Rightarrow> []
      | GoString str \<Rightarrow>
          (case NewField str of
             Inr _ \<Rightarrow> []
           | Inl err \<Rightarrow>
               (case err of
                  ParserError mErr \<Rightarrow>
                    (let (line, col) = LineAndColOf str (Input mErr);
                         lint = NewLintError line (Error (ParserError mErr))
                     in [lint\<lparr>Column := col\<rparr>])
                | _ \<Rightarrow> [NewLintError 0 (Error err)])))"

section \<open>The registry's documentation metadata\<close>

text \<open>
  Modelled from the spec: \<open>query.Status\<close>, \<open>query.FunctionCategory\<close> and
  \<open>query.MethodCategory\<close> are declared in package \<open>query\<close>, with the constants the
  source names. They are string types in Go (the source converts a category with
  \<open>string(cat)\<close>), so each has one more constructor for any string that is none of the
  constants, such as the empty category of a spec registered without one.
\<close>

datatype Status =
  StatusStable | StatusBeta | StatusDeprecated | StatusHidden | StatusOther string

datatype FunctionCategory =
  FunctionCategoryGeneral
| FunctionCategoryMessage
| FunctionCategoryEnvironment
| FunctionCategoryDeprecated
| FunctionCategoryOther string

datatype MethodCategory =
  MethodCategoryStrings
| MethodCategoryNumbers
| MethodCategoryRegexp
| MethodCategoryTime
| MethodCategoryCoercion
| MethodCategoryObjectAndArray
| MethodCategoryParsing
| MethodCategoryEncoding
| MethodCategoryDeprecated
| MethodCategoryOther string

text \<open>
  Modelled from the spec: the spec structures of package \<open>query\<close>, with the fields the
  source and its templates read. \<open>Results\<close> is a list of (input, output) pairs. The type
  of \<open>Params\<close> is a parameter. Fields of different structures that share a name in Go
  carry a suffix here: \<open>_fn\<close> for \<open>FunctionSpec\<close>, \<open>_cat\<close> for the per-category entry of
  a method, \<open>_fc\<close> and \<open>_mc\<close> for \<open>functionCategory\<close> and \<open>methodCategory\<close>,
  \<open>_fctx\<close> and \<open>_mctx\<close> for the two template contexts.
\<close>

record ExampleSpec =
  Mapping :: string
  Summary :: string
  Results :: "(string \<times> string) list"

record 'p FunctionSpec =
  Status_fn :: Status
  Category_fn :: FunctionCategory
  Name_fn :: string
  Description_fn :: string
  Params_fn :: 'p
  Examples_fn :: "ExampleSpec list"

record MethodCatSpec =
  Category :: MethodCategory
  Description_cat :: string
  Examples_cat :: "ExampleSpec list"

record 'p MethodSpec =
  Status :: Status
  Name :: string
  Description :: string
  Params :: 'p
  Examples :: "ExampleSpec list"
  Categories :: "MethodCatSpec list"

text \<open>
  \<open>strings.TrimSpace\<close> of Go's standard library removes leading and trailing white
  space as Unicode defines it; among the runes a \<^typ>\<open>char\<close> can hold these are tab, line
  feed, vertical tab, form feed, carriage return, space, U+0085 and U+00A0.
\<close>

definition isSpace :: "char \<Rightarrow> bool" where
  "isSpace c \<longleftrightarrow>
     c \<in> {CHR 0x09, CHR 0x0A, CHR 0x0B, CHR 0x0C, CHR 0x0D, CHR 0x20, CHR 0x85, CHR 0xA0}"

definition TrimSpace :: "string \<Rightarrow> string" where
  "TrimSpace s = rev (dropWhile isSpace (rev (dropWhile isSpace s)))"

subsection \<open>Functions\<close>

record 'p functionCategory =
  Name_fc :: FunctionCategory
  Specs_fc :: "'p FunctionSpec list"

record 'p functionsContext =
  Categories_fctx :: "'p functionCategory list"

text \<open>The categories \<open>BloblangFunctionsMarkdown\<close> ranges over, in its order.\<close>

definition function_categories :: "FunctionCategory list" where
  "function_categories =
     [FunctionCategoryGeneral, FunctionCategoryMessage,
      FunctionCategoryEnvironment, FunctionCategoryDeprecated]"

text \<open>
  The inner loop of \<open>BloblangFunctionsMarkdown\<close>: it appends to \<open>functions.Specs\<close> every
  spec of the category, in the order of \<open>specs\<close>.
\<close>

definition functions_of_cat ::
  "'p FunctionSpec list \<Rightarrow> FunctionCategory \<Rightarrow> 'p functionCategory" where
  "functions_of_cat specs cat =
     fold (\<lambda>spec functions.
             if Category_fn spec = cat
             then functions\<lparr>Specs_fc := Specs_fc functions @ [spec]\<rparr>
             else functions)
       specs \<lparr>Name_fc = cat, Specs_fc = []\<rparr>"

text \<open>
  The context \<open>BloblangFunctionsMarkdown\<close> builds from \<open>specs = query.FunctionDocs()\<close>
  before it executes the template. \<open>Name_fc\<close> holds the category whose string the source
  stores.
\<close>

definition functionsContext_of :: "'p FunctionSpec list \<Rightarrow> 'p functionsContext" where
  "functionsContext_of specs =
     fold (\<lambda>cat ctx.
             let functions = functions_of_cat specs cat
             in if length (Specs_fc functions) > 0
                then ctx\<lparr>Categories_fctx := Categories_fctx ctx @ [functions]\<rparr>
                else ctx)
       function_categories \<lparr>Categories_fctx = []\<rparr>"

text \<open>
  \<open>BloblangFunctionsMarkdown\<close>: the document is what the template engine
  (\<open>text/template\<close>, a parameter here) makes of that context and of nothing else. The
  template ranges over \<open>.Categories\<close> and, within each, over \<open>.Specs\<close>, in order.
\<close>

definition BloblangFunctionsMarkdown ::
  "('p functionsContext \<Rightarrow> 'doc) \<Rightarrow> 'p FunctionSpec list \<Rightarrow> 'doc" where
  "BloblangFunctionsMarkdown execute specs = execute (functionsContext_of specs)"

subsection \<open>Methods\<close>

record 'p methodCategory =
  Name_mc :: MethodCategory
  Specs_mc :: "'p MethodSpec list"

record 'p methodsContext =
  Categories_mctx :: "'p methodCategory list"
  General :: "'p MethodSpec list"

text \<open>
  \<open>methodForCat\<close>: the loop over \<open>s.Categories\<close> returns at the first entry of the
  category.
\<close>

fun methodForCat_loop ::
  "MethodCatSpec list \<Rightarrow> 'p MethodSpec \<Rightarrow> MethodCategory \<Rightarrow> 'p MethodSpec \<times> bool" where
  "methodForCat_loop [] s cat = (s, False)"
| "methodForCat_loop (c # cs) s cat =
     (if Category c = cat
      then (let spec = s;
                spec = (if length (Description_cat c) > 0
                        then spec\<lparr>Description := TrimSpace (Description_cat c)\<rparr>
                        else spec);
                spec = (if length (Examples_cat c) > 0
                        then spec\<lparr>Examples := Examples_cat c\<rparr>
                        else spec)
            in (spec, True))
      else methodForCat_loop cs s cat)"

definition methodForCat :: "'p MethodSpec \<Rightarrow> MethodCategory \<Rightarrow> 'p MethodSpec \<times> bool" where
  "methodForCat s cat = methodForCat_loop (Categories s) s cat"

text \<open>The categories \<open>BloblangMethodsMarkdown\<close> ranges over, in its order.\<close>

definition method_categories :: "MethodCategory list" where
  "method_categories =
     [MethodCategoryStrings, MethodCategoryNumbers, MethodCategoryRegexp,
      MethodCategoryTime, MethodCategoryCoercion, MethodCategoryObjectAndArray,
      MethodCategoryParsing, MethodCategoryEncoding, MethodCategoryDeprecated]"

definition methods_of_cat ::
  "'p MethodSpec list \<Rightarrow> MethodCategory \<Rightarrow> 'p methodCategory" where
  "methods_of_cat specs cat =
     fold (\<lambda>spec methods.
             case methodForCat spec cat of
               (spec', ok) \<Rightarrow>
                 if ok then methods\<lparr>Specs_mc := Specs_mc methods @ [spec']\<rparr>
                 else methods)
       specs \<lparr>Name_mc = cat, Specs_mc = []\<rparr>"

text \<open>
  The context \<open>BloblangMethodsMarkdown\<close> builds from \<open>specs = query.MethodDocs()\<close>: the
  loop over the categories, then the loop that fills \<open>General\<close>.
\<close>

definition methodsContext_of :: "'p MethodSpec list \<Rightarrow> 'p methodsContext" where
  "methodsContext_of specs =
     (let ctx = \<lparr>Categories_mctx = [], General = []\<rparr>;
          ctx = fold (\<lambda>cat ctx.
                        let methods = methods_of_cat specs cat
                        in if length (Specs_mc methods) > 0
                           then ctx\<lparr>Categories_mctx := Categories_mctx ctx @ [methods]\<rparr>
                           else ctx)
                  method_categories ctx
      in fold (\<lambda>spec ctx.
                 if length (Categories spec) = 0 \<and> Status spec \<noteq> StatusHidden
                 then ctx\<lparr>General :=
                        General ctx @ [spec\<lparr>Description := TrimSpace (Description spec)\<rparr>]\<rparr>
                 else ctx)
           specs ctx)"

definition BloblangMethodsMarkdown ::
  "('p methodsContext \<Rightarrow> 'doc) \<Rightarrow> 'p MethodSpec list \<Rightarrow> 'doc" where
  "BloblangMethodsMarkdown execute specs = execute (methodsContext_of specs)"

text \<open>
  The specs a context hands to the template: a spec is in the generated document when
  it is in one of these lists.
\<close>

definition functions_listed :: "'p functionsContext \<Rightarrow> 'p FunctionSpec list" where
  "functions_listed ctx = concat (map Specs_fc (Categories_fctx ctx))"

definition methods_listed :: "'p methodsContext \<Rightarrow> 'p MethodSpec list" where
  "methods_listed ctx = General ctx @ concat (map Specs_mc (Categories_mctx ctx))"

section \<open>The redis streams output\<close>

text \<open>
  The configuration, with the fields the writer reads. The types of the metadata filter
  configuration and of the client configuration are parameters.
\<close>

record ('md, 'cc) RedisStreamsConfig =
  Config :: 'cc
  Stream :: string
  BodyKey :: string
  MaxLenApprox :: int
  Metadata :: 'md

text \<open>
  A message part, as the writer reads it: its body (\<open>p.AsBytes()\<close>) and its metadata.
  A batch is the list of its parts.
\<close>

record Part =
  AsBytes :: string
  MetaPairs :: "(string \<times> string) list"

type_synonym Batch = "Part list"

text \<open>
  A value of a stream entry is a metadata string or the bytes of the body. The fields
  \<open>Stream\<close> and \<open>MaxLenApprox\<close> of \<open>redis.XAddArgs\<close> are \<open>StreamName\<close> and \<open>MaxLen\<close>
  here, since the configuration has fields of the same names.
\<close>

datatype entry_value = MetaValue string | BodyValue string

record XAddArgs =
  ID :: string
  StreamName :: string
  MaxLen :: int
  Values :: "string \<rightharpoonup> entry_value"

text \<open>
  The redis client, as far as the writer's control flow depends on it: the error (or
  none) of one \<open>XADD\<close>, and for a pipeline of commands the error of each command
  and the error of \<open>Exec\<close>.
\<close>

record redis_client =
  XAddErr :: "XAddArgs \<Rightarrow> error option"
  ExecErrs :: "XAddArgs list \<Rightarrow> error option list \<times> error option"

text \<open>
  The writer. \<open>stream\<close> is the compiled interpolation field, by its method
  \<open>String(index, batch)\<close>; \<open>metaFilter\<close> is the compiled metadata filter, by the sequence
  of pairs its method \<open>Iter\<close> hands to the callback for a part; \<open>client\<close> is \<open>None\<close>
  while the writer is not connected.
\<close>

record ('md, 'cc) redisStreamsWriter =
  conf :: "('md, 'cc) RedisStreamsConfig"
  stream :: "nat \<Rightarrow> Batch \<Rightarrow> string"
  metaFilter :: "Part \<Rightarrow> (string \<times> string) list"
  client :: "redis_client option"

text \<open>
  \<open>newRedisStreamsWriter\<close>. The field compiler \<open>NewField\<close>, the filter constructor
  \<open>conf.Metadata.Filter\<close> and \<open>clientFromConfig\<close> are parameters; each returns an error
  or its result. \<open>fmt.Errorf\<close> makes an error with the formatted message.
\<close>

definition newRedisStreamsWriter ::
  "(string \<Rightarrow> error + (nat \<Rightarrow> Batch \<Rightarrow> string)) \<Rightarrow>
   ('md \<Rightarrow> error + (Part \<Rightarrow> (string \<times> string) list)) \<Rightarrow>
   ('cc \<Rightarrow> error + redis_client) \<Rightarrow>
   ('md, 'cc) RedisStreamsConfig \<Rightarrow> error + ('md, 'cc) redisStreamsWriter" where
  "newRedisStreamsWriter NewField Filter clientFromConfig cnf =
     (case NewField (Stream cnf) of
        Inl err \<Rightarrow> Inl (OtherError (''failed to parse expression: '' @ Error err))
      | Inr strm \<Rightarrow>
          (case Filter (Metadata cnf) of
             Inl err \<Rightarrow>
               Inl (OtherError (''failed to construct metadata filter: '' @ Error err))
           | Inr flt \<Rightarrow>
               (case clientFromConfig (Config cnf) of
                  Inl err \<Rightarrow> Inl err
                | Inr _ \<Rightarrow>
                    Inr \<lparr>conf = cnf, stream = strm, metaFilter = flt, client = None\<rparr>)))"

text \<open>
  \<open>partToMap\<close>, the closure of \<open>WriteBatch\<close>: every pair of the filtered metadata is
  stored, then the body under the body key.
\<close>

definition partToMap :: "('md, 'cc) redisStreamsWriter \<Rightarrow> Part \<Rightarrow> (string \<rightharpoonup> entry_value)" where
  "partToMap r p =
     (let values = Map.empty;
          values = fold (\<lambda>(k, v) values. values(k \<mapsto> MetaValue v)) (metaFilter r p) values
      in values(BodyKey (conf r) \<mapsto> BodyValue (AsBytes p)))"

text \<open>What \<open>WriteBatch\<close> returns: nil, \<open>component.ErrNotConnected\<close>, or a batch error
  made of the first failure, with the index and the error of every failed command.\<close>

datatype write_error = ErrNotConnected | BatchError error "(nat \<times> error) list"

text \<open>
  The outcome of \<open>WriteBatch\<close>: the \<open>XADD\<close> commands it handed to the client, in order,
  the writer afterwards (\<open>disconnect\<close> clears the client), and the returned error.
\<close>

record ('md, 'cc) write_outcome =
  xadds :: "XAddArgs list"
  writer :: "('md, 'cc) redisStreamsWriter"
  returned :: "write_error option"

definition disconnect :: "('md, 'cc) redisStreamsWriter \<Rightarrow> ('md, 'cc) redisStreamsWriter" where
  "disconnect r = (case client r of Some _ \<Rightarrow> r\<lparr>client := None\<rparr> | None \<Rightarrow> r)"

text \<open>The commands of the pipeline: \<open>msg.Iter\<close> calls the closure on every index and
  part of the batch, in order.\<close>

definition pipeline_xadds :: "('md, 'cc) redisStreamsWriter \<Rightarrow> Batch \<Rightarrow> XAddArgs list" where
  "pipeline_xadds r msg =
     map (\<lambda>(i, p). \<lparr>ID = ''*'', StreamName = stream r i msg,
                     MaxLen = MaxLenApprox (conf r), Values = partToMap r p\<rparr>)
       (enumerate 0 msg)"

text \<open>The loop over the results of the pipeline: the batch error is made at the first
  failed command, and records every failed index.\<close>

definition batch_error :: "error option list \<Rightarrow> write_error option" where
  "batch_error cmders =
     fold (\<lambda>(i, res) batchErr.
             case res of
               None \<Rightarrow> batchErr
             | Some e \<Rightarrow>
                 (case batchErr of
                    Some (BatchError e0 failed) \<Rightarrow> Some (BatchError e0 (failed @ [(i, e)]))
                  | _ \<Rightarrow> Some (BatchError e [(i, e)])))
       (enumerate 0 cmders) None"

definition WriteBatch ::
  "('md, 'cc) redisStreamsWriter \<Rightarrow> Batch \<Rightarrow> ('md, 'cc) write_outcome" where
  "WriteBatch r msg =
     (case client r of
        None \<Rightarrow> \<lparr>xadds = [], writer = r, returned = Some ErrNotConnected\<rparr>
      | Some cl \<Rightarrow>
          if length msg = 1
          then (let args = \<lparr>ID = ''*'', StreamName = stream r 0 msg,
                            MaxLen = MaxLenApprox (conf r),
                            Values = partToMap r (msg ! 0)\<rparr>
                in case XAddErr cl args of
                     Some err \<Rightarrow>
                       \<lparr>xadds = [args], writer = disconnect r,
                        returned = Some ErrNotConnected\<rparr>
                   | None \<Rightarrow> \<lparr>xadds = [args], writer = r, returned = None\<rparr>)
          else (let pipe = pipeline_xadds r msg
                in case ExecErrs cl pipe of
                     (cmders, Some err) \<Rightarrow>
                       \<lparr>xadds = pipe, writer = disconnect r,
                        returned = Some ErrNotConnected\<rparr>
                   | (cmders, None) \<Rightarrow>
                       \<lparr>xadds = pipe, writer = r, returned = batch_error cmders\<rparr>))"

section \<open>Line and column of an offset\<close>

lemma scan_line: "fst (scan src n line col) = line + int (count_list (take n src) newline)"
  by (induction src n line col rule: scan.induct) auto

lemma takeWhile_snoc:
  "takeWhile P (xs @ [c]) =
     (if \<forall>x\<in>set xs. P x then (if P c then xs @ [c] else xs) else takeWhile P xs)"
proof (cases "\<forall>x\<in>set xs. P x")
  case True
  then have "takeWhile P (xs @ [c]) = xs @ takeWhile P [c]"
    by (intro takeWhile_append2) blast
  with True show ?thesis by auto
next
  case False
  then obtain x where "x \<in> set xs" "\<not> P x" by blast
  then have "takeWhile P (xs @ [c]) = takeWhile P xs" by (rule takeWhile_append1)
  with False show ?thesis by auto
qed

lemma scan_col:
  "snd (scan src n line col) =
     (if newline \<in> set (take n src)
      then 1 + int (length (takeWhile (\<lambda>c. c \<noteq> newline) (rev (take n src))))
      else col + int (length (take n src)))"
proof (induction src n line col rule: scan.induct)
  case (3 c cs n line col)
  then show ?case by (auto simp: takeWhile_snoc)
qed auto

lemma scan_past_end:
  "length src \<le> n \<Longrightarrow> scan src n line col = scan src (length src) line col"
  by (induction src n line col rule: scan.induct) auto

text \<open>
  C6. \<open>LineAndColOf\<close> returns the one-based line and column of the offset: the line is
  one more than the number of newlines among the runes before the offset, the column is
  one more than the number of runes between the last of these newlines (or the start of
  the source) and the offset. It is total, and an offset past the end of the source
  resolves to the position of the end. On the source \<open>a\<newline>b\<newline>cd\<close> the offset 4
  of the rune \<open>c\<close> resolves to line 3, column 1.
\<close>

theorem LineAndColOf_one_based:
  "LineAndColOf source offset =
     (1 + int (count_list (take offset source) newline),
      1 + int (length (takeWhile (\<lambda>c. c \<noteq> newline) (rev (take offset source)))))
   \<and> LineAndColOf source (length source + k) = LineAndColOf source (length source)
   \<and> LineAndColOf [CHR ''a'', newline, CHR ''b'', newline, CHR ''c'', CHR ''d''] 4 = (3, 1)"
proof -
  have col: "snd (scan source offset 1 1) =
      1 + int (length (takeWhile (\<lambda>c. c \<noteq> newline) (rev (take offset source))))"
  proof (cases "newline \<in> set (take offset source)")
    case True
    then show ?thesis by (simp add: scan_col)
  next
    case False
    then have tw:
      "takeWhile (\<lambda>c. c \<noteq> newline) (rev (take offset source)) = rev (take offset source)"
      by (auto simp: takeWhile_eq_all_conv)
    from False show ?thesis by (simp add: scan_col tw)
  qed
  have "LineAndColOf source offset =
     (1 + int (count_list (take offset source) newline),
      1 + int (length (takeWhile (\<lambda>c. c \<noteq> newline) (rev (take offset source)))))"
    unfolding LineAndColOf_def using scan_line [of source offset 1 1] col
    by (simp add: prod_eq_iff)
  moreover have "LineAndColOf source (length source + k) = LineAndColOf source (length source)"
    unfolding LineAndColOf_def by (rule scan_past_end) simp
  moreover have
    "LineAndColOf [CHR ''a'', newline, CHR ''b'', newline, CHR ''c'', CHR ''d''] 4 = (3, 1)"
    by (simp add: LineAndColOf_def newline_def numeral_eq_Suc)
  ultimately show ?thesis by blast
qed

section \<open>Linting\<close>

text \<open>
  C2. When the compilation of the string \<open>str\<close> fails with a parser error,
  \<open>LintBloblangMapping\<close> (respectively \<open>LintBloblangField\<close>) returns exactly one lint: its
  line and column are those \<open>LineAndColOf\<close> computes from the position of the parser
  error in \<open>str\<close>, its message is the message of the parser error. When it fails with any
  other error, it returns exactly one lint, with the message of the error and line 0.
\<close>

theorem lint_of_failed_compilation:
  fixes NewMapping :: "string \<Rightarrow> string \<Rightarrow> error + 'm"
    and NewField :: "string \<Rightarrow> error + 'f"
  shows
  "(NewMapping [] str = Inl (ParserError mErr) \<longrightarrow>
      LintBloblangMapping NewMapping (GoString str :: 'a go_interface) =
        [\<lparr>Line = fst (LineAndColOf str (Input mErr)),
          Column = snd (LineAndColOf str (Input mErr)),
          What = Message mErr\<rparr>])
   \<and> (NewMapping [] str = Inl (OtherError msg) \<longrightarrow>
      LintBloblangMapping NewMapping (GoString str :: 'a go_interface) =
        [\<lparr>Line = 0, Column = 0, What = msg\<rparr>])
   \<and> (NewField str = Inl (ParserError mErr) \<longrightarrow>
      LintBloblangField NewField (GoString str :: 'a go_interface) =
        [\<lparr>Line = fst (LineAndColOf str (Input mErr)),
          Column = snd (LineAndColOf str (Input mErr)),
          What = Message mErr\<rparr>])
   \<and> (NewField str = Inl (OtherError msg) \<longrightarrow>
      LintBloblangField NewField (GoString str :: 'a go_interface) =
        [\<lparr>Line = 0, Column = 0, What = msg\<rparr>])"
  by (simp add: LintBloblangMapping_def LintBloblangField_def NewLintError_def
      split: prod.splits)

theorem lint_of_failed_compilation_witness:
  "LintBloblangMapping
      (\<lambda>path src. Inl (ParserError \<lparr>Input = 4, Message = ''expected query''\<rparr>) :: error + unit)
      (GoString [CHR ''a'', newline, CHR ''b'', newline, CHR ''c'', CHR ''d''] :: unit go_interface)
     = [\<lparr>Line = 3, Column = 1, What = ''expected query''\<rparr>]
   \<and> LintBloblangField (\<lambda>src. Inl (OtherError ''no such file'') :: error + unit)
      (GoString [CHR ''a'', newline, CHR ''b'', newline, CHR ''c'', CHR ''d''] :: unit go_interface)
     = [\<lparr>Line = 0, Column = 0, What = ''no such file''\<rparr>]
   \<and> LintBloblangMapping (\<lambda>path src. Inl (OtherError ''no such file'') :: error + unit)
      (GoString ''from'' :: unit go_interface)
     = [\<lparr>Line = 0, Column = 0, What = ''no such file''\<rparr>]
   \<and> LintBloblangField
      (\<lambda>src. Inl (ParserError \<lparr>Input = 2, Message = ''expected query''\<rparr>) :: error + unit)
      (GoString ''from'' :: unit go_interface)
     = [\<lparr>Line = 1, Column = 3, What = ''expected query''\<rparr>]"
  using
    lint_of_failed_compilation
      [where ?'a = unit and ?'m = unit and ?'f = unit,
       of "\<lambda>path src. Inl (ParserError \<lparr>Input = 4, Message = ''expected query''\<rparr>)"
          "[CHR ''a'', newline, CHR ''b'', newline, CHR ''c'', CHR ''d'']"
          "\<lparr>Input = 4, Message = ''expected query''\<rparr>" "''no such file''"
          "\<lambda>src. Inl (OtherError ''no such file'')"]
    lint_of_failed_compilation
      [where ?'a = unit and ?'m = unit and ?'f = unit,
       of "\<lambda>path src. Inl (OtherError ''no such file'')" "''from''"
          "\<lparr>Input = 2, Message = ''expected query''\<rparr>" "''no such file''"
          "\<lambda>src. Inl (ParserError \<lparr>Input = 2, Message = ''expected query''\<rparr>)"]
  by (simp add: LineAndColOf_def newline_def numeral_eq_Suc)

text \<open>
  C8. A value that is not a string gets no lint from either function, and neither does
  a string that compiles: a lint is returned exactly for a string whose compilation
  fails.
\<close>

theorem lint_only_on_failure:
  fixes NewMapping :: "string \<Rightarrow> string \<Rightarrow> error + 'm"
    and NewField :: "string \<Rightarrow> error + 'f"
    and v :: "'a go_interface"
  shows
  "LintBloblangMapping NewMapping (GoOther x :: 'a go_interface) = []
   \<and> LintBloblangField NewField (GoOther x :: 'a go_interface) = []
   \<and> (NewMapping [] str = Inr m \<longrightarrow>
        LintBloblangMapping NewMapping (GoString str :: 'a go_interface) = [])
   \<and> (NewField str = Inr f \<longrightarrow>
        LintBloblangField NewField (GoString str :: 'a go_interface) = [])
   \<and> (LintBloblangMapping NewMapping v \<noteq> [] \<longleftrightarrow>
        (\<exists>s err. v = GoString s \<and> NewMapping [] s = Inl err))
   \<and> (LintBloblangField NewField v \<noteq> [] \<longleftrightarrow>
        (\<exists>s err. v = GoString s \<and> NewField s = Inl err))"
  by (auto simp: LintBloblangMapping_def LintBloblangField_def
      split: go_interface.splits sum.splits error.splits prod.splits)

theorem lint_only_on_failure_witness:
  "LintBloblangMapping
      (\<lambda>path src. if src = ''root = this'' then Inr ()
                   else Inl (ParserError \<lparr>Input = 0, Message = ''expected query''\<rparr>))
      (GoString ''root = this'' :: int go_interface) = []
   \<and> LintBloblangField
      (\<lambda>src. if src = ''root = this'' then Inr ()
              else Inl (ParserError \<lparr>Input = 0, Message = ''expected query''\<rparr>))
      (GoString ''root = this'' :: int go_interface) = []
   \<and> LintBloblangMapping
      (\<lambda>path src. if src = ''root = this'' then Inr ()
                   else Inl (ParserError \<lparr>Input = 0, Message = ''expected query''\<rparr>))
      (GoOther 5 :: int go_interface) = []
   \<and> LintBloblangField
      (\<lambda>src. if src = ''root = this'' then Inr ()
              else Inl (ParserError \<lparr>Input = 0, Message = ''expected query''\<rparr>))
      (GoString ''='' :: int go_interface) \<noteq> []"
  using
    lint_only_on_failure
      [where ?'a = int and ?'m = unit and ?'f = unit,
       of "\<lambda>path src. if src = ''root = this'' then Inr ()
                       else Inl (ParserError \<lparr>Input = 0, Message = ''expected query''\<rparr>)"
          5
          "\<lambda>src. if src = ''root = this'' then Inr ()
                  else Inl (ParserError \<lparr>Input = 0, Message = ''expected query''\<rparr>)"
          "''root = this''" "()" "()" "GoString ''=''"]
  by simp

section \<open>The generated documentation\<close>

subsection \<open>The loops as filters\<close>

lemma functions_of_cat_fold:
  "fold (\<lambda>spec functions.
           if Category_fn spec = cat
           then functions\<lparr>Specs_fc := Specs_fc functions @ [spec]\<rparr>
           else functions) specs fc =
   fc\<lparr>Specs_fc := Specs_fc fc @ filter (\<lambda>s. Category_fn s = cat) specs\<rparr>"
  by (induction specs arbitrary: fc) auto

lemma functions_of_cat_eq:
  "functions_of_cat specs cat =
     \<lparr>Name_fc = cat, Specs_fc = filter (\<lambda>s. Category_fn s = cat) specs\<rparr>"
  by (simp add: functions_of_cat_def functions_of_cat_fold)

lemma functionsContext_fold:
  "fold (\<lambda>cat ctx.
           let functions = G cat
           in if length (Specs_fc functions) > 0
              then ctx\<lparr>Categories_fctx := Categories_fctx ctx @ [functions]\<rparr>
              else ctx) cats ctx =
   ctx\<lparr>Categories_fctx :=
         Categories_fctx ctx @ filter (\<lambda>f. Specs_fc f \<noteq> []) (map G cats)\<rparr>"
  by (induction cats arbitrary: ctx) (auto simp: Let_def)

lemma functionsContext_of_eq:
  "Categories_fctx (functionsContext_of specs) =
     filter (\<lambda>f. Specs_fc f \<noteq> []) (map (functions_of_cat specs) function_categories)"
  unfolding functionsContext_of_def functionsContext_fold by simp

lemma filter_map_name:
  "map Name_fc (filter (\<lambda>f. Specs_fc f \<noteq> []) (map (functions_of_cat specs) cats)) =
     filter (\<lambda>cat. cat \<in> Category_fn ` set specs) cats"
  by (induction cats) (auto simp: functions_of_cat_eq filter_empty_conv)

lemma set_concat_nonempty_fc:
  "set (concat (map Specs_fc (filter (\<lambda>f. Specs_fc f \<noteq> []) (map G cats)))) =
   (\<Union>cat \<in> set cats. set (Specs_fc (G cat)))"
  by (induction cats) auto

lemma functions_listed_set:
  "set (functions_listed (functionsContext_of fspecs)) =
     {f \<in> set fspecs. Category_fn f \<in> set function_categories}"
  unfolding functions_listed_def functionsContext_of_eq set_concat_nonempty_fc
  by (auto simp: functions_of_cat_eq)

lemma methodForCat_loop_none:
  "\<forall>c \<in> set cs. Category c \<noteq> cat \<Longrightarrow> methodForCat_loop cs s cat = (s, False)"
  by (induction cs) auto

lemma methodForCat_loop_find:
  "find (\<lambda>c. Category c = cat) cs = Some c \<Longrightarrow>
   methodForCat_loop cs s cat =
     (s\<lparr>Description := (if Description_cat c \<noteq> [] then TrimSpace (Description_cat c)
                          else Description s),
        Examples := (if Examples_cat c \<noteq> [] then Examples_cat c else Examples s)\<rparr>, True)"
  by (induction cs) (auto simp: Let_def)

lemma methodForCat_loop_snd:
  "snd (methodForCat_loop cs s cat) \<longleftrightarrow> cat \<in> Category ` set cs"
  by (induction cs) (auto simp: Let_def)

lemma methodForCat_snd: "snd (methodForCat s cat) \<longleftrightarrow> cat \<in> Category ` set (Categories s)"
  unfolding methodForCat_def by (rule methodForCat_loop_snd)

lemma methodForCat_loop_frame:
  "Name (fst (methodForCat_loop cs s cat)) = Name s
   \<and> Status (fst (methodForCat_loop cs s cat)) = Status s
   \<and> Params (fst (methodForCat_loop cs s cat)) = Params s
   \<and> Categories (fst (methodForCat_loop cs s cat)) = Categories s"
  by (induction cs) (auto simp: Let_def)

lemma methods_of_cat_fold:
  "fold (\<lambda>spec methods.
           case methodForCat spec cat of
             (spec', ok) \<Rightarrow>
               if ok then methods\<lparr>Specs_mc := Specs_mc methods @ [spec']\<rparr>
               else methods) specs mc =
   mc\<lparr>Specs_mc := Specs_mc mc @
         map (\<lambda>s. fst (methodForCat s cat)) (filter (\<lambda>s. snd (methodForCat s cat)) specs)\<rparr>"
  by (induction specs arbitrary: mc) (auto split: prod.splits)

lemma methods_of_cat_eq:
  "methods_of_cat specs cat =
     \<lparr>Name_mc = cat,
      Specs_mc = map (\<lambda>s. fst (methodForCat s cat))
                   (filter (\<lambda>s. snd (methodForCat s cat)) specs)\<rparr>"
  by (simp add: methods_of_cat_def methods_of_cat_fold)

lemma methodsContext_cat_fold:
  "fold (\<lambda>cat ctx.
           let methods = G cat
           in if length (Specs_mc methods) > 0
              then ctx\<lparr>Categories_mctx := Categories_mctx ctx @ [methods]\<rparr>
              else ctx) cats ctx =
   ctx\<lparr>Categories_mctx :=
         Categories_mctx ctx @ filter (\<lambda>m. Specs_mc m \<noteq> []) (map G cats)\<rparr>"
  by (induction cats arbitrary: ctx) (auto simp: Let_def)

lemma methodsContext_general_fold:
  "fold (\<lambda>spec ctx.
           if length (Categories spec) = 0 \<and> Status spec \<noteq> StatusHidden
           then ctx\<lparr>General :=
                  General ctx @ [spec\<lparr>Description := TrimSpace (Description spec)\<rparr>]\<rparr>
           else ctx) specs ctx =
   ctx\<lparr>General := General ctx @
         map (\<lambda>s. s\<lparr>Description := TrimSpace (Description s)\<rparr>)
           (filter (\<lambda>s. Categories s = [] \<and> Status s \<noteq> StatusHidden) specs)\<rparr>"
  by (induction specs arbitrary: ctx) auto

lemma methodsContext_of_eq:
  "methodsContext_of specs =
     \<lparr>Categories_mctx =
        filter (\<lambda>m. Specs_mc m \<noteq> []) (map (methods_of_cat specs) method_categories),
      General =
        map (\<lambda>s. s\<lparr>Description := TrimSpace (Description s)\<rparr>)
          (filter (\<lambda>s. Categories s = [] \<and> Status s \<noteq> StatusHidden) specs)\<rparr>"
  unfolding methodsContext_of_def methodsContext_cat_fold methodsContext_general_fold
  by (simp add: Let_def)

lemma set_concat_nonempty_mc:
  "set (concat (map Specs_mc (filter (\<lambda>m. Specs_mc m \<noteq> []) (map G cats)))) =
   (\<Union>cat \<in> set cats. set (Specs_mc (G cat)))"
  by (induction cats) auto

lemma in_listed_categories:
  "g \<in> set (concat (map Specs_mc (Categories_mctx (methodsContext_of specs)))) \<longleftrightarrow>
     (\<exists>s \<in> set specs. \<exists>cat \<in> set method_categories.
        cat \<in> Category ` set (Categories s) \<and> g = fst (methodForCat s cat))"
  unfolding methodsContext_of_eq methodsContext.simps set_concat_nonempty_mc
  by (auto simp: methods_of_cat_eq methodForCat_snd)

lemma in_listed_general:
  "g \<in> set (General (methodsContext_of specs)) \<longleftrightarrow>
     (\<exists>s \<in> set specs. Categories s = [] \<and> Status s \<noteq> StatusHidden
        \<and> g = s\<lparr>Description := TrimSpace (Description s)\<rparr>)"
  by (auto simp: methodsContext_of_eq)

subsection \<open>Functions by category\<close>

text \<open>
  C4. The context \<open>BloblangFunctionsMarkdown\<close> renders holds the categories in the fixed
  order General, Message, Environment, Deprecated, leaving out every category no spec of
  \<open>FunctionDocs()\<close> has; each category holds exactly the specs of that category, in the
  relative order of \<open>FunctionDocs()\<close>, and is never empty.
\<close>

theorem functions_grouped:
  fixes specs :: "'p FunctionSpec list"
  shows
  "map Name_fc (Categories_fctx (functionsContext_of specs)) =
     filter (\<lambda>cat. cat \<in> Category_fn ` set specs)
       [FunctionCategoryGeneral, FunctionCategoryMessage,
        FunctionCategoryEnvironment, FunctionCategoryDeprecated]
   \<and> (\<forall>c \<in> set (Categories_fctx (functionsContext_of specs)).
        Specs_fc c = filter (\<lambda>s. Category_fn s = Name_fc c) specs
        \<and> subseq (Specs_fc c) specs
        \<and> Specs_fc c \<noteq> [])
   \<and> BloblangFunctionsMarkdown execute specs = execute (functionsContext_of specs)"
proof -
  have "map Name_fc (Categories_fctx (functionsContext_of specs)) =
     filter (\<lambda>cat. cat \<in> Category_fn ` set specs) function_categories"
    by (simp only: functionsContext_of_eq filter_map_name)
  moreover have "\<forall>c \<in> set (Categories_fctx (functionsContext_of specs)).
        Specs_fc c = filter (\<lambda>s. Category_fn s = Name_fc c) specs
        \<and> subseq (Specs_fc c) specs \<and> Specs_fc c \<noteq> []"
    by (auto simp: functionsContext_of_eq functions_of_cat_eq)
  ultimately show ?thesis
    unfolding function_categories_def BloblangFunctionsMarkdown_def by blast
qed

theorem functions_grouped_witness:
  "\<lparr>Name_fc = FunctionCategoryGeneral,
     Specs_fc =
       [\<lparr>Status_fn = StatusStable, Category_fn = FunctionCategoryGeneral, Name_fn = ''count'',
         Description_fn = [], Params_fn = (), Examples_fn = []\<rparr>,
        \<lparr>Status_fn = StatusBeta, Category_fn = FunctionCategoryGeneral, Name_fn = ''uuid_v4'',
         Description_fn = [], Params_fn = (), Examples_fn = []\<rparr>]\<rparr>
     \<in> set (Categories_fctx (functionsContext_of
         [\<lparr>Status_fn = StatusStable, Category_fn = FunctionCategoryGeneral, Name_fn = ''count'',
           Description_fn = [], Params_fn = (), Examples_fn = []\<rparr>,
          \<lparr>Status_fn = StatusStable, Category_fn = FunctionCategoryEnvironment,
           Name_fn = ''hostname'', Description_fn = [], Params_fn = (), Examples_fn = []\<rparr>,
          \<lparr>Status_fn = StatusBeta, Category_fn = FunctionCategoryGeneral, Name_fn = ''uuid_v4'',
           Description_fn = [], Params_fn = (), Examples_fn = []\<rparr>]))
   \<and> subseq
       [\<lparr>Status_fn = StatusStable, Category_fn = FunctionCategoryGeneral, Name_fn = ''count'',
         Description_fn = [], Params_fn = (), Examples_fn = []\<rparr>,
        \<lparr>Status_fn = StatusBeta, Category_fn = FunctionCategoryGeneral, Name_fn = ''uuid_v4'',
         Description_fn = [], Params_fn = (), Examples_fn = []\<rparr>]
       [\<lparr>Status_fn = StatusStable, Category_fn = FunctionCategoryGeneral, Name_fn = ''count'',
         Description_fn = [], Params_fn = (), Examples_fn = []\<rparr>,
        \<lparr>Status_fn = StatusStable, Category_fn = FunctionCategoryEnvironment,
         Name_fn = ''hostname'', Description_fn = [], Params_fn = (), Examples_fn = []\<rparr>,
        \<lparr>Status_fn = StatusBeta, Category_fn = FunctionCategoryGeneral, Name_fn = ''uuid_v4'',
         Description_fn = [], Params_fn = (), Examples_fn = []\<rparr>]
   \<and> map Name_fc (Categories_fctx (functionsContext_of
         [\<lparr>Status_fn = StatusStable, Category_fn = FunctionCategoryGeneral, Name_fn = ''count'',
           Description_fn = [], Params_fn = (), Examples_fn = []\<rparr>,
          \<lparr>Status_fn = StatusStable, Category_fn = FunctionCategoryEnvironment,
           Name_fn = ''hostname'', Description_fn = [], Params_fn = (), Examples_fn = []\<rparr>,
          \<lparr>Status_fn = StatusBeta, Category_fn = FunctionCategoryGeneral, Name_fn = ''uuid_v4'',
           Description_fn = [], Params_fn = (), Examples_fn = []\<rparr>]))
     = [FunctionCategoryGeneral, FunctionCategoryEnvironment]"
proof -
  let ?count = "\<lparr>Status_fn = StatusStable, Category_fn = FunctionCategoryGeneral,
    Name_fn = ''count'', Description_fn = [], Params_fn = (), Examples_fn = []\<rparr>"
  let ?hostname = "\<lparr>Status_fn = StatusStable, Category_fn = FunctionCategoryEnvironment,
    Name_fn = ''hostname'', Description_fn = [], Params_fn = (), Examples_fn = []\<rparr>"
  let ?uuid = "\<lparr>Status_fn = StatusBeta, Category_fn = FunctionCategoryGeneral,
    Name_fn = ''uuid_v4'', Description_fn = [], Params_fn = (), Examples_fn = []\<rparr>"
  let ?specs = "[?count, ?hostname, ?uuid]"
  let ?general = "\<lparr>Name_fc = FunctionCategoryGeneral, Specs_fc = [?count, ?uuid]\<rparr>"
  note grouped = functions_grouped [where ?'p = unit, of ?specs id]
  have mem: "?general \<in> set (Categories_fctx (functionsContext_of ?specs))"
    by (simp add: functionsContext_of_eq functions_of_cat_eq function_categories_def)
  with grouped have "subseq (Specs_fc ?general) ?specs" by blast
  then have sub: "subseq [?count, ?uuid] ?specs" by simp
  from grouped have
    "map Name_fc (Categories_fctx (functionsContext_of ?specs)) =
       [FunctionCategoryGeneral, FunctionCategoryEnvironment]"
    by simp
  with mem sub show ?thesis by blast
qed

subsection \<open>Methods by category\<close>

text \<open>
  C3. If \<open>s\<close> has no entry of the category, \<open>methodForCat\<close> returns \<open>(s, false)\<close>.
  Otherwise, with \<open>c\<close> the first entry of \<open>s.Categories\<close> of the category, it returns
  \<open>(s', true)\<close>, where the description of \<open>s'\<close> is the trimmed description of \<open>c\<close> when
  that is not empty and the description of \<open>s\<close> otherwise, and the examples of \<open>s'\<close> are
  those of \<open>c\<close> when there are any and those of \<open>s\<close> otherwise.
\<close>

theorem methodForCat_overrides:
  fixes s :: "'p MethodSpec"
  shows
  "((\<forall>c \<in> set (Categories s). Category c \<noteq> cat) \<longrightarrow> methodForCat s cat = (s, False))
   \<and> (find (\<lambda>c. Category c = cat) (Categories s) = Some c \<longrightarrow>
        methodForCat s cat =
          (s\<lparr>Description := (if Description_cat c \<noteq> [] then TrimSpace (Description_cat c)
                               else Description s),
             Examples := (if Examples_cat c \<noteq> [] then Examples_cat c else Examples s)\<rparr>,
           True))"
  unfolding methodForCat_def
  using methodForCat_loop_none [of "Categories s" cat s]
    methodForCat_loop_find [of cat "Categories s" c s]
  by blast

theorem methodForCat_overrides_witness:
  "methodForCat
     \<lparr>Status = StatusStable, Name = ''length'', Description = ''The length of a value.'',
      Params = (), Examples = [],
      Categories =
        [\<lparr>Category = MethodCategoryStrings, Description_cat = '' The length of a string.  '',
          Examples_cat = []\<rparr>,
         \<lparr>Category = MethodCategoryObjectAndArray, Description_cat = [],
          Examples_cat = [\<lparr>Mapping = ''root.n = this.xs.length()'', Summary = [],
                           Results = []\<rparr>]\<rparr>]\<rparr>
     MethodCategoryStrings =
     (\<lparr>Status = StatusStable, Name = ''length'', Description = ''The length of a string.'',
       Params = (), Examples = [],
       Categories =
         [\<lparr>Category = MethodCategoryStrings, Description_cat = '' The length of a string.  '',
           Examples_cat = []\<rparr>,
          \<lparr>Category = MethodCategoryObjectAndArray, Description_cat = [],
           Examples_cat = [\<lparr>Mapping = ''root.n = this.xs.length()'', Summary = [],
                            Results = []\<rparr>]\<rparr>]\<rparr>, True)
   \<and> methodForCat
     \<lparr>Status = StatusStable, Name = ''length'', Description = ''The length of a value.'',
      Params = (), Examples = [],
      Categories =
        [\<lparr>Category = MethodCategoryStrings, Description_cat = '' The length of a string.  '',
          Examples_cat = []\<rparr>,
         \<lparr>Category = MethodCategoryObjectAndArray, Description_cat = [],
          Examples_cat = [\<lparr>Mapping = ''root.n = this.xs.length()'', Summary = [],
                           Results = []\<rparr>]\<rparr>]\<rparr>
     MethodCategoryObjectAndArray =
     (\<lparr>Status = StatusStable, Name = ''length'', Description = ''The length of a value.'',
       Params = (),
       Examples = [\<lparr>Mapping = ''root.n = this.xs.length()'', Summary = [], Results = []\<rparr>],
       Categories =
         [\<lparr>Category = MethodCategoryStrings, Description_cat = '' The length of a string.  '',
           Examples_cat = []\<rparr>,
          \<lparr>Category = MethodCategoryObjectAndArray, Description_cat = [],
           Examples_cat = [\<lparr>Mapping = ''root.n = this.xs.length()'', Summary = [],
                            Results = []\<rparr>]\<rparr>]\<rparr>, True)
   \<and> methodForCat
     \<lparr>Status = StatusStable, Name = ''length'', Description = ''The length of a value.'',
      Params = (), Examples = [],
      Categories =
        [\<lparr>Category = MethodCategoryStrings, Description_cat = '' The length of a string.  '',
          Examples_cat = []\<rparr>,
         \<lparr>Category = MethodCategoryObjectAndArray, Description_cat = [],
          Examples_cat = [\<lparr>Mapping = ''root.n = this.xs.length()'', Summary = [],
                           Results = []\<rparr>]\<rparr>]\<rparr>
     MethodCategoryRegexp =
     (\<lparr>Status = StatusStable, Name = ''length'', Description = ''The length of a value.'',
       Params = (), Examples = [],
       Categories =
         [\<lparr>Category = MethodCategoryStrings, Description_cat = '' The length of a string.  '',
           Examples_cat = []\<rparr>,
          \<lparr>Category = MethodCategoryObjectAndArray, Description_cat = [],
           Examples_cat = [\<lparr>Mapping = ''root.n = this.xs.length()'', Summary = [],
                            Results = []\<rparr>]\<rparr>]\<rparr>, False)"
proof -
  let ?strings = "\<lparr>Category = MethodCategoryStrings,
    Description_cat = '' The length of a string.  '', Examples_cat = []\<rparr>"
  let ?arrays = "\<lparr>Category = MethodCategoryObjectAndArray, Description_cat = [],
    Examples_cat = [\<lparr>Mapping = ''root.n = this.xs.length()'', Summary = [], Results = []\<rparr>]\<rparr>"
  let ?s = "\<lparr>Status = StatusStable, Name = ''length'', Description = ''The length of a value.'',
    Params = (), Examples = [], Categories = [?strings, ?arrays]\<rparr>"
  have trim: "TrimSpace '' The length of a string.  '' = ''The length of a string.''"
    by (simp add: TrimSpace_def isSpace_def)
  have "methodForCat ?s MethodCategoryStrings =
      (?s\<lparr>Description := ''The length of a string.''\<rparr>, True)"
    using methodForCat_overrides [where ?'p = unit, of ?s MethodCategoryStrings ?strings] trim
    by simp
  moreover have "methodForCat ?s MethodCategoryObjectAndArray =
      (?s\<lparr>Examples := Examples_cat ?arrays\<rparr>, True)"
    using methodForCat_overrides [where ?'p = unit, of ?s MethodCategoryObjectAndArray ?arrays]
    by simp
  moreover have "methodForCat ?s MethodCategoryRegexp = (?s, False)"
    using methodForCat_overrides [where ?'p = unit, of ?s MethodCategoryRegexp ?arrays]
    by simp
  ultimately show ?thesis by simp
qed

text \<open>
  C10. The spec \<open>methodForCat\<close> returns has the name, the status, the parameters and the
  categories of its argument, which it takes by value: it returns a new value and writes
  through no slice of the argument.
\<close>

theorem methodForCat_frame:
  fixes s :: "'p MethodSpec"
  shows
  "Name (fst (methodForCat s cat)) = Name s
   \<and> Status (fst (methodForCat s cat)) = Status s
   \<and> Params (fst (methodForCat s cat)) = Params s
   \<and> Categories (fst (methodForCat s cat)) = Categories s"
  unfolding methodForCat_def by (rule methodForCat_loop_frame)

lemma methodForCat_keeps:
  "Status (fst (methodForCat s cat)) = Status s
   \<and> Categories (fst (methodForCat s cat)) = Categories s"
  unfolding methodForCat_def using methodForCat_loop_frame [of "Categories s" s cat] by simp

lemma method_sections_eq:
  "filter (\<lambda>m. Specs_mc m \<noteq> []) (map (methods_of_cat specs) cats) =
     map (\<lambda>cat. \<lparr>Name_mc = cat,
                   Specs_mc = map (\<lambda>s. fst (methodForCat s cat))
                                (filter (\<lambda>s. cat \<in> Category ` set (Categories s)) specs)\<rparr>)
       (filter (\<lambda>cat. \<exists>s \<in> set specs. cat \<in> Category ` set (Categories s)) cats)"
  by (induction cats) (auto simp: methods_of_cat_eq methodForCat_snd filter_empty_conv)

lemma function_sections_eq:
  "filter (\<lambda>f. Specs_fc f \<noteq> []) (map (functions_of_cat fspecs) cats) =
     map (\<lambda>cat. \<lparr>Name_fc = cat, Specs_fc = filter (\<lambda>f. Category_fn f = cat) fspecs\<rparr>)
       (filter (\<lambda>cat. cat \<in> Category_fn ` set fspecs) cats)"
  by (induction cats) (auto simp: functions_of_cat_eq filter_empty_conv)

subsection \<open>Status and documentation\<close>

text \<open>
  C1, as the code has it. \<open>BloblangMethodsMarkdown\<close> tests the status in one place only:
  the General section lists exactly the specs without categories whose status is not
  hidden, in the order of \<open>MethodDocs()\<close>. Every one of the nine categories that some
  spec has an entry of gets one section, in the fixed order; the section headed by a
  category lists exactly the specs with an entry of that category, in the order of
  \<open>MethodDocs()\<close>, each as \<open>methodForCat\<close> returns it and so with its own status,
  deprecated ones included. Hence a spec that is hidden and has no categories is nowhere
  in the document. \<open>BloblangFunctionsMarkdown\<close> gives every one of its four categories
  that some spec has one section, headed by the category and listing exactly the specs
  of that category, whatever their status.
\<close>

theorem docs_status_filter:
  fixes specs :: "'p MethodSpec list" and fspecs :: "'q FunctionSpec list"
  shows
  "General (methodsContext_of specs) =
     map (\<lambda>s. s\<lparr>Description := TrimSpace (Description s)\<rparr>)
       (filter (\<lambda>s. Categories s = [] \<and> Status s \<noteq> StatusHidden) specs)
   \<and> Categories_mctx (methodsContext_of specs) =
     map (\<lambda>cat. \<lparr>Name_mc = cat,
                   Specs_mc = map (\<lambda>s. fst (methodForCat s cat))
                                (filter (\<lambda>s. cat \<in> Category ` set (Categories s)) specs)\<rparr>)
       (filter (\<lambda>cat. \<exists>s \<in> set specs. cat \<in> Category ` set (Categories s))
          [MethodCategoryStrings, MethodCategoryNumbers, MethodCategoryRegexp,
           MethodCategoryTime, MethodCategoryCoercion, MethodCategoryObjectAndArray,
           MethodCategoryParsing, MethodCategoryEncoding, MethodCategoryDeprecated])
   \<and> Status (fst (methodForCat s cat)) = Status s
   \<and> (g \<in> set (methods_listed (methodsContext_of specs)) \<longrightarrow>
        \<not> (Status g = StatusHidden \<and> Categories g = []))
   \<and> Categories_fctx (functionsContext_of fspecs) =
     map (\<lambda>cat. \<lparr>Name_fc = cat, Specs_fc = filter (\<lambda>f. Category_fn f = cat) fspecs\<rparr>)
       (filter (\<lambda>cat. cat \<in> Category_fn ` set fspecs)
          [FunctionCategoryGeneral, FunctionCategoryMessage,
           FunctionCategoryEnvironment, FunctionCategoryDeprecated])"
proof -
  have general: "General (methodsContext_of specs) =
     map (\<lambda>s. s\<lparr>Description := TrimSpace (Description s)\<rparr>)
       (filter (\<lambda>s. Categories s = [] \<and> Status s \<noteq> StatusHidden) specs)"
    by (simp add: methodsContext_of_eq)
  have sections: "Categories_mctx (methodsContext_of specs) =
     map (\<lambda>cat. \<lparr>Name_mc = cat,
                   Specs_mc = map (\<lambda>s. fst (methodForCat s cat))
                                (filter (\<lambda>s. cat \<in> Category ` set (Categories s)) specs)\<rparr>)
       (filter (\<lambda>cat. \<exists>s \<in> set specs. cat \<in> Category ` set (Categories s))
          method_categories)"
    unfolding methodsContext_of_eq methodsContext.simps by (rule method_sections_eq)
  have status: "Status (fst (methodForCat s cat)) = Status s"
    using methodForCat_keeps [of s cat] by simp
  have hidden: "\<not> (Status g = StatusHidden \<and> Categories g = [])"
    if "g \<in> set (methods_listed (methodsContext_of specs))"
  proof -
    from that consider
      (gen) "g \<in> set (General (methodsContext_of specs))"
      | (cat) "g \<in> set (concat (map Specs_mc (Categories_mctx (methodsContext_of specs))))"
      unfolding methods_listed_def by auto
    then show ?thesis
    proof cases
      case gen
      then show ?thesis by (auto simp: in_listed_general)
    next
      case cat
      then obtain s c where "c \<in> Category ` set (Categories s)" "g = fst (methodForCat s c)"
        unfolding in_listed_categories by blast
      then show ?thesis using methodForCat_keeps [of s c] by auto
    qed
  qed
  have fsections: "Categories_fctx (functionsContext_of fspecs) =
     map (\<lambda>cat. \<lparr>Name_fc = cat, Specs_fc = filter (\<lambda>f. Category_fn f = cat) fspecs\<rparr>)
       (filter (\<lambda>cat. cat \<in> Category_fn ` set fspecs) function_categories)"
    unfolding functionsContext_of_eq by (rule function_sections_eq)
  from general sections status hidden fsections show ?thesis
    unfolding method_categories_def function_categories_def by blast
qed

theorem docs_status_filter_witness:
  "Categories_mctx (methodsContext_of
      [\<lparr>Status = StatusHidden, Name = ''internal'', Description = [], Params = (),
        Examples = [], Categories = []\<rparr>,
       \<lparr>Status = StatusDeprecated, Name = ''from_json'', Description = '' Use parse_json.'',
        Params = (), Examples = [], Categories = []\<rparr>,
       \<lparr>Status = StatusDeprecated, Name = ''sub_string'', Description = ''Use slice.'',
        Params = (), Examples = [],
        Categories =
          [\<lparr>Category = MethodCategoryDeprecated, Description_cat = [], Examples_cat = []\<rparr>,
           \<lparr>Category = MethodCategoryStrings, Description_cat = [], Examples_cat = []\<rparr>]\<rparr>])
     = [\<lparr>Name_mc = MethodCategoryStrings,
         Specs_mc =
           [\<lparr>Status = StatusDeprecated, Name = ''sub_string'', Description = ''Use slice.'',
             Params = (), Examples = [],
             Categories =
               [\<lparr>Category = MethodCategoryDeprecated, Description_cat = [],
                 Examples_cat = []\<rparr>,
                \<lparr>Category = MethodCategoryStrings, Description_cat = [],
                 Examples_cat = []\<rparr>]\<rparr>]\<rparr>,
        \<lparr>Name_mc = MethodCategoryDeprecated,
         Specs_mc =
           [\<lparr>Status = StatusDeprecated, Name = ''sub_string'', Description = ''Use slice.'',
             Params = (), Examples = [],
             Categories =
               [\<lparr>Category = MethodCategoryDeprecated, Description_cat = [],
                 Examples_cat = []\<rparr>,
                \<lparr>Category = MethodCategoryStrings, Description_cat = [],
                 Examples_cat = []\<rparr>]\<rparr>]\<rparr>]
   \<and> General (methodsContext_of
      [\<lparr>Status = StatusHidden, Name = ''internal'', Description = [], Params = (),
        Examples = [], Categories = []\<rparr>,
       \<lparr>Status = StatusDeprecated, Name = ''from_json'', Description = '' Use parse_json.'',
        Params = (), Examples = [], Categories = []\<rparr>,
       \<lparr>Status = StatusDeprecated, Name = ''sub_string'', Description = ''Use slice.'',
        Params = (), Examples = [],
        Categories =
          [\<lparr>Category = MethodCategoryDeprecated, Description_cat = [], Examples_cat = []\<rparr>,
           \<lparr>Category = MethodCategoryStrings, Description_cat = [], Examples_cat = []\<rparr>]\<rparr>])
     = [\<lparr>Status = StatusDeprecated, Name = ''from_json'', Description = ''Use parse_json.'',
         Params = (), Examples = [], Categories = []\<rparr>]
   \<and> \<lparr>Status = StatusHidden, Name = ''internal'', Description = [], Params = (),
       Examples = [], Categories = []\<rparr>
     \<notin> set (methods_listed (methodsContext_of
      [\<lparr>Status = StatusHidden, Name = ''internal'', Description = [], Params = (),
        Examples = [], Categories = []\<rparr>,
       \<lparr>Status = StatusDeprecated, Name = ''from_json'', Description = '' Use parse_json.'',
        Params = (), Examples = [], Categories = []\<rparr>,
       \<lparr>Status = StatusDeprecated, Name = ''sub_string'', Description = ''Use slice.'',
        Params = (), Examples = [],
        Categories =
          [\<lparr>Category = MethodCategoryDeprecated, Description_cat = [], Examples_cat = []\<rparr>,
           \<lparr>Category = MethodCategoryStrings, Description_cat = [], Examples_cat = []\<rparr>]\<rparr>]))
   \<and> Categories_fctx (functionsContext_of
      [\<lparr>Status_fn = StatusDeprecated, Category_fn = FunctionCategoryDeprecated,
        Name_fn = ''json_path'', Description_fn = ''Use json.'', Params_fn = (),
        Examples_fn = []\<rparr>,
       \<lparr>Status_fn = StatusHidden, Category_fn = FunctionCategoryOther [],
        Name_fn = ''internal'', Description_fn = [], Params_fn = (), Examples_fn = []\<rparr>])
     = [\<lparr>Name_fc = FunctionCategoryDeprecated,
         Specs_fc =
           [\<lparr>Status_fn = StatusDeprecated, Category_fn = FunctionCategoryDeprecated,
             Name_fn = ''json_path'', Description_fn = ''Use json.'', Params_fn = (),
             Examples_fn = []\<rparr>]\<rparr>]"
proof -
  let ?hidden = "\<lparr>Status = StatusHidden, Name = ''internal'', Description = [], Params = (),
    Examples = [], Categories = []\<rparr>"
  let ?old = "\<lparr>Status = StatusDeprecated, Name = ''from_json'',
    Description = '' Use parse_json.'', Params = (), Examples = [], Categories = []\<rparr>"
  let ?sub = "\<lparr>Status = StatusDeprecated, Name = ''sub_string'', Description = ''Use slice.'',
    Params = (), Examples = [],
    Categories =
      [\<lparr>Category = MethodCategoryDeprecated, Description_cat = [], Examples_cat = []\<rparr>,
       \<lparr>Category = MethodCategoryStrings, Description_cat = [], Examples_cat = []\<rparr>]\<rparr>"
  let ?specs = "[?hidden, ?old, ?sub]"
  let ?fspecs = "[\<lparr>Status_fn = StatusDeprecated, Category_fn = FunctionCategoryDeprecated,
      Name_fn = ''json_path'', Description_fn = ''Use json.'', Params_fn = (),
      Examples_fn = []\<rparr>,
    \<lparr>Status_fn = StatusHidden, Category_fn = FunctionCategoryOther [],
      Name_fn = ''internal'', Description_fn = [], Params_fn = (), Examples_fn = []\<rparr>]"
  note sections = docs_status_filter
    [where ?'p = unit and ?'q = unit and specs = ?specs and fspecs = ?fspecs
       and g = ?hidden and s = ?sub and cat = MethodCategoryStrings]
  have trim: "TrimSpace '' Use parse_json.'' = ''Use parse_json.''"
    by (simp add: TrimSpace_def isSpace_def)
  from sections have
    "?hidden \<in> set (methods_listed (methodsContext_of ?specs)) \<longrightarrow>
       \<not> (Status ?hidden = StatusHidden \<and> Categories ?hidden = [])"
    by (elim conjE)
  then have listed: "?hidden \<notin> set (methods_listed (methodsContext_of ?specs))"
    by auto
  from sections have general: "General (methodsContext_of ?specs) =
      [\<lparr>Status = StatusDeprecated, Name = ''from_json'', Description = ''Use parse_json.'',
        Params = (), Examples = [], Categories = []\<rparr>]"
    by (simp add: trim)
  from sections have methods: "Categories_mctx (methodsContext_of ?specs) =
      [\<lparr>Name_mc = MethodCategoryStrings, Specs_mc = [?sub]\<rparr>,
       \<lparr>Name_mc = MethodCategoryDeprecated, Specs_mc = [?sub]\<rparr>]"
    by (simp add: methodForCat_def)
  from sections have fns: "Categories_fctx (functionsContext_of ?fspecs) =
      [\<lparr>Name_fc = FunctionCategoryDeprecated, Specs_fc = [hd ?fspecs]\<rparr>]"
    by simp
  from listed general methods fns show ?thesis by simp
qed

text \<open>
  C1 as stated fails: both functions range over a category Deprecated of their own, so a
  method whose status is deprecated and that has an entry of that category, and a
  function whose status is deprecated and whose category it is, are both listed in the
  generated document.
\<close>

theorem deprecated_is_documented:
  "methods_listed (methodsContext_of
      [\<lparr>Status = StatusDeprecated, Name = ''from_json'', Description = ''Use parse_json.'',
        Params = (), Examples = [],
        Categories = [\<lparr>Category = MethodCategoryDeprecated, Description_cat = [],
                        Examples_cat = []\<rparr>]\<rparr>]) =
      [\<lparr>Status = StatusDeprecated, Name = ''from_json'', Description = ''Use parse_json.'',
        Params = (), Examples = [],
        Categories = [\<lparr>Category = MethodCategoryDeprecated, Description_cat = [],
                        Examples_cat = []\<rparr>]\<rparr>]
   \<and> functions_listed (functionsContext_of
      [\<lparr>Status_fn = StatusDeprecated, Category_fn = FunctionCategoryDeprecated,
        Name_fn = ''json_path'', Description_fn = ''Use json.'', Params_fn = (),
        Examples_fn = []\<rparr>]) =
      [\<lparr>Status_fn = StatusDeprecated, Category_fn = FunctionCategoryDeprecated,
        Name_fn = ''json_path'', Description_fn = ''Use json.'', Params_fn = (),
        Examples_fn = []\<rparr>]"
  by (simp add: methods_listed_def functions_listed_def methodsContext_of_def
      functionsContext_of_def method_categories_def function_categories_def
      methods_of_cat_def functions_of_cat_def methodForCat_def Let_def)

section \<open>The redis streams writer\<close>

text \<open>
  C5. When the stream field of the configuration does not compile,
  \<open>newRedisStreamsWriter\<close> returns no writer, and the error
  \<open>failed to parse expression: ...\<close> with the message of the compiler's error.
\<close>

theorem newRedisStreamsWriter_fails_fast:
  fixes cnf :: "('md, 'cc) RedisStreamsConfig"
  shows
  "NewField (Stream cnf) = Inl err \<Longrightarrow>
   newRedisStreamsWriter NewField Filter clientFromConfig cnf =
     Inl (OtherError (''failed to parse expression: '' @ Error err))"
  by (simp add: newRedisStreamsWriter_def)

theorem newRedisStreamsWriter_fails_fast_witness:
  "newRedisStreamsWriter
     (\<lambda>src. if src = ''${!'' then Inl (ParserError \<lparr>Input = 3, Message = ''expected query''\<rparr>)
             else Inr (\<lambda>i msg. src))
     (\<lambda>md. Inr MetaPairs)
     (\<lambda>cc. Inr \<lparr>XAddErr = (\<lambda>args. None), ExecErrs = (\<lambda>pipe. ([], None))\<rparr>)
     \<lparr>Config = (), Stream = ''${!'', BodyKey = ''body'', MaxLenApprox = 0, Metadata = ()\<rparr>
   = Inl (OtherError ''failed to parse expression: expected query'')"
  using newRedisStreamsWriter_fails_fast
    [where ?'md = unit and ?'cc = unit,
     of "\<lambda>src. if src = ''${!''
               then Inl (ParserError \<lparr>Input = 3, Message = ''expected query''\<rparr>)
               else Inr (\<lambda>i msg. src)"
        "\<lparr>Config = (), Stream = ''${!'', BodyKey = ''body'', MaxLenApprox = 0, Metadata = ()\<rparr>"
        "ParserError \<lparr>Input = 3, Message = ''expected query''\<rparr>"
        "\<lambda>md. Inr MetaPairs"
        "\<lambda>cc. Inr \<lparr>XAddErr = (\<lambda>args. None), ExecErrs = (\<lambda>pipe. ([], None))\<rparr>"]
  by simp

lemma fold_upd_map_of:
  "fold (\<lambda>(k, v) values. values(k \<mapsto> f v)) kvs m k =
     (case map_of (rev kvs) k of Some v \<Rightarrow> Some (f v) | None \<Rightarrow> m k)"
  by (induction kvs arbitrary: m) (auto split: option.splits)

text \<open>
  C9. In the map \<open>partToMap\<close> builds for a part, the body key always holds the body of
  the part, also when the metadata has a pair with that key; any other key holds the
  value of the last metadata pair with that key, if there is one.
\<close>

theorem body_takes_precedence:
  fixes r :: "('md, 'cc) redisStreamsWriter"
  shows
  "partToMap r p (BodyKey (conf r)) = Some (BodyValue (AsBytes p))
   \<and> (k \<noteq> BodyKey (conf r) \<longrightarrow>
        partToMap r p k = map_option MetaValue (map_of (rev (metaFilter r p)) k))"
  by (simp add: partToMap_def fold_upd_map_of split: option.splits)

theorem body_takes_precedence_witness:
  "partToMap
     \<lparr>conf = \<lparr>Config = (), Stream = ''events'', BodyKey = ''body'', MaxLenApprox = 0,
              Metadata = ()\<rparr>,
      stream = (\<lambda>i msg. ''events''), metaFilter = MetaPairs, client = None\<rparr>
     \<lparr>AsBytes = ''payload'', MetaPairs = [(''body'', ''shadowed''), (''topic'', ''a'')]\<rparr>
     ''body'' = Some (BodyValue ''payload'')
   \<and> partToMap
     \<lparr>conf = \<lparr>Config = (), Stream = ''events'', BodyKey = ''body'', MaxLenApprox = 0,
              Metadata = ()\<rparr>,
      stream = (\<lambda>i msg. ''events''), metaFilter = MetaPairs, client = None\<rparr>
     \<lparr>AsBytes = ''payload'', MetaPairs = [(''body'', ''shadowed''), (''topic'', ''a'')]\<rparr>
     ''topic'' = Some (MetaValue ''a'')"
  using body_takes_precedence
    [where ?'md = unit and ?'cc = unit,
     of "\<lparr>conf = \<lparr>Config = (), Stream = ''events'', BodyKey = ''body'', MaxLenApprox = 0,
                  Metadata = ()\<rparr>,
          stream = (\<lambda>i msg. ''events''), metaFilter = MetaPairs, client = None\<rparr>"
        "\<lparr>AsBytes = ''payload'', MetaPairs = [(''body'', ''shadowed''), (''topic'', ''a'')]\<rparr>"
        "''topic''"]
  by simp

lemma map_enumerate_nth:
  "map (\<lambda>(i, p). f i p) (enumerate n xs) = map (\<lambda>i. f (n + i) (xs ! i)) [0..<length xs]"
proof (induction xs arbitrary: n)
  case Nil
  then show ?case by simp
next
  case (Cons x xs)
  have "map (\<lambda>i. f (n + i) ((x # xs) ! i)) [0..<length (x # xs)] =
        f n x # map (\<lambda>i. f (n + Suc i) (xs ! i)) [0..<length xs]"
    by (simp add: upt_conv_Cons map_Suc_upt [symmetric] del: upt_Suc)
  with Cons show ?case by simp
qed

text \<open>
  C7. A connected writer hands the client one \<open>XADD\<close> per message of the batch, in the
  order of the batch; the stream of the command for message \<open>i\<close> is the interpolation
  field evaluated at index \<open>i\<close> of the batch, \<open>stream.String(i, batch)\<close>, and its values
  are those of message \<open>i\<close>.
\<close>

theorem stream_evaluated_per_message:
  fixes r :: "('md, 'cc) redisStreamsWriter"
  shows
  "client r = Some cl \<Longrightarrow>
   xadds (WriteBatch r msg) =
     map (\<lambda>i. \<lparr>ID = ''*'', StreamName = stream r i msg, MaxLen = MaxLenApprox (conf r),
                Values = partToMap r (msg ! i)\<rparr>) [0..<length msg]"
proof (cases "length msg = 1")
  case True
  assume "client r = Some cl"
  with True show ?thesis
    by (simp add: WriteBatch_def Let_def split: option.splits)
next
  case False
  assume "client r = Some cl"
  with False show ?thesis
    using map_enumerate_nth [of "\<lambda>i p. \<lparr>ID = ''*'', StreamName = stream r i msg,
      MaxLen = MaxLenApprox (conf r), Values = partToMap r p\<rparr>" 0 msg]
    by (simp add: WriteBatch_def pipeline_xadds_def Let_def split: option.splits prod.splits)
qed

theorem stream_evaluated_per_message_witness:
  "map StreamName (xadds (WriteBatch
     \<lparr>conf = \<lparr>Config = (), Stream = ''${! content() }'', BodyKey = ''body'', MaxLenApprox = 0,
              Metadata = ()\<rparr>,
      stream = (\<lambda>i msg. AsBytes (msg ! i)), metaFilter = MetaPairs,
      client = Some \<lparr>XAddErr = (\<lambda>args. None),
                      ExecErrs = (\<lambda>pipe. (map (\<lambda>args. None) pipe, None))\<rparr>\<rparr>
     [\<lparr>AsBytes = ''orders'', MetaPairs = []\<rparr>, \<lparr>AsBytes = ''refunds'', MetaPairs = []\<rparr>]))
   = [''orders'', ''refunds'']"
  using stream_evaluated_per_message
    [where ?'md = unit and ?'cc = unit,
     of "\<lparr>conf = \<lparr>Config = (), Stream = ''${! content() }'', BodyKey = ''body'',
                  MaxLenApprox = 0, Metadata = ()\<rparr>,
          stream = (\<lambda>i msg. AsBytes (msg ! i)), metaFilter = MetaPairs,
          client = Some \<lparr>XAddErr = (\<lambda>args. None),
                          ExecErrs = (\<lambda>pipe. (map (\<lambda>args. None) pipe, None))\<rparr>\<rparr>"
        "\<lparr>XAddErr = (\<lambda>args. None), ExecErrs = (\<lambda>pipe. (map (\<lambda>args. None) pipe, None))\<rparr>"
        "[\<lparr>AsBytes = ''orders'', MetaPairs = []\<rparr>, \<lparr>AsBytes = ''refunds'', MetaPairs = []\<rparr>]"]
  by (simp add: upt_rec)

end
